theory Spec2Isabelle
  imports Main
begin

section \<open>The host object system\<close>

text \<open>
  A \<^verbatim>\<open>CFTypeRef\<close> is an opaque pointer; only its identity and whether it is
  \<^verbatim>\<open>nullptr\<close> matter to \<^verbatim>\<open>SFBCFWrapper.hpp\<close>. Pointers are natural numbers, the
  null pointer is 0. An address of a wrapper object (\<^verbatim>\<open>this\<close>, \<^verbatim>\<open>rhs\<close>) is a natural
  number too.
\<close>

type_synonym CFTypeRef = nat
type_synonym addr = nat

abbreviation nullptr :: CFTypeRef where
  "nullptr \<equiv> 0"

text \<open>The two reference-count primitives of the host, as events of a call log.\<close>

datatype host_call = Retain CFTypeRef | Release CFTypeRef

text \<open>
  The class \<^verbatim>\<open>CFWrapper<T>\<close>: its two private members, in declaration order.
\<close>

record CFWrapper =
  mObject :: CFTypeRef
  mRelease :: bool

text \<open>
  The machine: the wrapper objects by address (C++ passes \<^verbatim>\<open>rhs\<close> by reference, so
  \<^verbatim>\<open>this\<close> and \<^verbatim>\<open>rhs\<close> may be the same object), the host's reference count
  \<open>R[h]\<close> of every object, and the log of the host calls issued so far.
\<close>

record machine =
  mem :: "addr \<Rightarrow> CFWrapper"
  refcount :: "CFTypeRef \<Rightarrow> int"
  calls :: "host_call list"

text \<open>
  Modelled from the spec: \<^verbatim>\<open>CFRetain\<close> and \<^verbatim>\<open>CFRelease\<close> are Core Foundation
  functions, declared in headers that are not part of the repository. The spec (section 6)
  gives their contract: \<open>Retain(h)\<close> increments the reference count of \<open>h\<close>,
  \<open>Release(h)\<close> decrements it. The count is an integer ledger of outstanding
  references; deallocation at zero is the host's business and is not modelled.
\<close>

definition CFRetain :: "CFTypeRef \<Rightarrow> machine \<Rightarrow> machine" where
  "CFRetain h s =
     s\<lparr>refcount := (refcount s)(h := refcount s h + 1), calls := calls s @ [Retain h]\<rparr>"

definition CFRelease :: "CFTypeRef \<Rightarrow> machine \<Rightarrow> machine" where
  "CFRelease h s =
     s\<lparr>refcount := (refcount s)(h := refcount s h - 1), calls := calls s @ [Release h]\<rparr>"

section \<open>Member access\<close>

definition get_mObject :: "addr \<Rightarrow> machine \<Rightarrow> CFTypeRef" where
  "get_mObject p s = mObject (mem s p)"

definition get_mRelease :: "addr \<Rightarrow> machine \<Rightarrow> bool" where
  "get_mRelease p s = mRelease (mem s p)"

definition set_mObject :: "addr \<Rightarrow> CFTypeRef \<Rightarrow> machine \<Rightarrow> machine" where
  "set_mObject p v s = s\<lparr>mem := (mem s)(p := (mem s p)\<lparr>mObject := v\<rparr>)\<rparr>"

definition set_mRelease :: "addr \<Rightarrow> bool \<Rightarrow> machine \<Rightarrow> machine" where
  "set_mRelease p v s = s\<lparr>mem := (mem s)(p := (mem s p)\<lparr>mRelease := v\<rparr>)\<rparr>"

section \<open>Creation and destruction\<close>

text \<open>\<^verbatim>\<open>CFWrapper(T object, bool release) : mObject(object), mRelease(release) {}\<close>\<close>

definition CFWrapper_ctor :: "addr \<Rightarrow> CFTypeRef \<Rightarrow> bool \<Rightarrow> machine \<Rightarrow> machine" where
  "CFWrapper_ctor this object release s =
     set_mRelease this release (set_mObject this object s)"

text \<open>\<^verbatim>\<open>explicit CFWrapper(T object) : CFWrapper(object, true) {}\<close>\<close>

definition CFWrapper_ctor_object :: "addr \<Rightarrow> CFTypeRef \<Rightarrow> machine \<Rightarrow> machine" where
  "CFWrapper_ctor_object this object s = CFWrapper_ctor this object True s"

text \<open>\<^verbatim>\<open>CFWrapper() : CFWrapper(nullptr) {}\<close>\<close>

definition CFWrapper_ctor_default :: "addr \<Rightarrow> machine \<Rightarrow> machine" where
  "CFWrapper_ctor_default this s = CFWrapper_ctor_object this nullptr s"

text \<open>
  \<^verbatim>\<open>CFWrapper(const CFWrapper& rhs) : mObject(rhs.mObject), mRelease(rhs.mRelease)
  { if(mObject && mRelease) CFRetain(mObject); }\<close>
\<close>

definition CFWrapper_ctor_copy :: "addr \<Rightarrow> addr \<Rightarrow> machine \<Rightarrow> machine" where
  "CFWrapper_ctor_copy this rhs s =
     (let s1 = set_mObject this (get_mObject rhs s) s;
          s2 = set_mRelease this (get_mRelease rhs s1) s1
      in if get_mObject this s2 \<noteq> nullptr \<and> get_mRelease this s2
         then CFRetain (get_mObject this s2) s2
         else s2)"

text \<open>
  \<^verbatim>\<open>CFWrapper(CFWrapper&& rhs) : mObject(rhs.mObject), mRelease(rhs.mRelease)
  { rhs.mObject = nullptr; }\<close>
\<close>

definition CFWrapper_ctor_move :: "addr \<Rightarrow> addr \<Rightarrow> machine \<Rightarrow> machine" where
  "CFWrapper_ctor_move this rhs s =
     (let s1 = set_mObject this (get_mObject rhs s) s;
          s2 = set_mRelease this (get_mRelease rhs s1) s1
      in set_mObject rhs nullptr s2)"

text \<open>
  \<^verbatim>\<open>~CFWrapper() { if(mObject && mRelease) CFRelease(mObject); mObject = nullptr; }\<close>
\<close>

definition CFWrapper_dtor :: "addr \<Rightarrow> machine \<Rightarrow> machine" where
  "CFWrapper_dtor this s =
     (let s1 = (if get_mObject this s \<noteq> nullptr \<and> get_mRelease this s
                then CFRelease (get_mObject this s) s
                else s)
      in set_mObject this nullptr s1)"

section \<open>Assignment\<close>

text \<open>\<^verbatim>\<open>CFWrapper& operator=(const CFWrapper& rhs)\<close>\<close>

definition assign_copy :: "addr \<Rightarrow> addr \<Rightarrow> machine \<Rightarrow> machine" where
  "assign_copy this rhs s =
     (if get_mObject this s \<noteq> get_mObject rhs s then
        (let s1 = (if get_mObject this s \<noteq> nullptr \<and> get_mRelease this s
                   then CFRelease (get_mObject this s) s
                   else s);
             s2 = set_mObject this (get_mObject rhs s1) s1;
             s3 = set_mRelease this (get_mRelease rhs s2) s2
         in if get_mObject this s3 \<noteq> nullptr \<and> get_mRelease this s3
            then CFRetain (get_mObject this s3) s3
            else s3)
      else s)"

text \<open>\<^verbatim>\<open>CFWrapper& operator=(CFWrapper&& rhs)\<close>\<close>

definition assign_move :: "addr \<Rightarrow> addr \<Rightarrow> machine \<Rightarrow> machine" where
  "assign_move this rhs s =
     (if get_mObject this s \<noteq> get_mObject rhs s then
        (let s1 = (if get_mObject this s \<noteq> nullptr \<and> get_mRelease this s
                   then CFRelease (get_mObject this s) s
                   else s);
             s2 = set_mObject this (get_mObject rhs s1) s1;
             s3 = set_mRelease this (get_mRelease rhs s2) s2
         in set_mObject rhs nullptr s3)
      else s)"

text \<open>
  \<^verbatim>\<open>CFWrapper& operator=(const T& rhs)\<close>: assignment from a raw handle. The handle
  is taken by value: a reference that aliases \<^verbatim>\<open>this->mObject\<close> compares equal to it,
  and then the body is not entered.
\<close>

definition assign_object :: "addr \<Rightarrow> CFTypeRef \<Rightarrow> machine \<Rightarrow> machine" where
  "assign_object this rhs s =
     (if get_mObject this s \<noteq> rhs then
        (let s1 = (if get_mObject this s \<noteq> nullptr \<and> get_mRelease this s
                   then CFRelease (get_mObject this s) s
                   else s);
             s2 = set_mObject this rhs s1
         in set_mRelease this True s2)
      else s)"

section \<open>Pointer management\<close>

text \<open>
  \<^verbatim>\<open>T Relinquish() { T object = mObject; mObject = nullptr; return object; }\<close>:
  the returned handle and the machine afterwards.
\<close>

definition Relinquish :: "addr \<Rightarrow> machine \<Rightarrow> CFTypeRef \<times> machine" where
  "Relinquish this s =
     (let object = get_mObject this s;
          s1 = set_mObject this nullptr s
      in (object, s1))"

section \<open>Equality testing\<close>

text \<open>
  \<^verbatim>\<open>bool operator==(const CFWrapper& rhs) const\<close>. \<^verbatim>\<open>CFEqual\<close> is the host's
  equality predicate, a Core Foundation function outside the repository: it is a
  parameter, about which nothing is assumed.
\<close>

definition operator_eq ::
  "(CFTypeRef \<Rightarrow> CFTypeRef \<Rightarrow> bool) \<Rightarrow> addr \<Rightarrow> addr \<Rightarrow> machine \<Rightarrow> bool" where
  "operator_eq CFEqual this rhs s =
     (if get_mObject this s = get_mObject rhs s then True
      else if get_mObject this s = nullptr \<or> get_mObject rhs s = nullptr then False
      else CFEqual (get_mObject this s) (get_mObject rhs s))"

text \<open>\<^verbatim>\<open>bool operator!=(const CFWrapper& rhs) const { return !operator==(rhs); }\<close>\<close>

definition operator_ne ::
  "(CFTypeRef \<Rightarrow> CFTypeRef \<Rightarrow> bool) \<Rightarrow> addr \<Rightarrow> addr \<Rightarrow> machine \<Rightarrow> bool" where
  "operator_ne CFEqual this rhs s = (\<not> operator_eq CFEqual this rhs s)"

section \<open>The states of a wrapper\<close>

text \<open>
  The three states of the spec's state machine, as predicates on a wrapper:
  \<open>Empty\<close> (the handle is empty), \<open>Owning h\<close> (the handle is \<open>h\<close>, non-empty, and
  the flag is set), \<open>Borrowing h\<close> (the handle is \<open>h\<close>, non-empty, the flag is clear).
\<close>

definition Empty :: "CFWrapper \<Rightarrow> bool" where
  "Empty w = (mObject w = nullptr)"

definition Owning :: "CFTypeRef \<Rightarrow> CFWrapper \<Rightarrow> bool" where
  "Owning h w = (h \<noteq> nullptr \<and> mObject w = h \<and> mRelease w)"

definition Borrowing :: "CFTypeRef \<Rightarrow> CFWrapper \<Rightarrow> bool" where
  "Borrowing h w = (h \<noteq> nullptr \<and> mObject w = h \<and> \<not> mRelease w)"

section \<open>Sequences of operations\<close>

text \<open>
  The operations a program can apply to wrappers, each naming the object it is applied to
  (\<open>this\<close>) first; \<open>step\<close> runs the member function of that name, \<open>run\<close> a
  sequence of them in program order.
\<close>

datatype op =
    Construct addr CFTypeRef bool
  | CopyConstruct addr addr
  | MoveConstruct addr addr
  | CopyAssign addr addr
  | MoveAssign addr addr
  | ObjectAssign addr CFTypeRef
  | DoRelinquish addr
  | Destroy addr

fun step :: "op \<Rightarrow> machine \<Rightarrow> machine" where
  "step (Construct this object release) s = CFWrapper_ctor this object release s"
| "step (CopyConstruct this rhs) s = CFWrapper_ctor_copy this rhs s"
| "step (MoveConstruct this rhs) s = CFWrapper_ctor_move this rhs s"
| "step (CopyAssign this rhs) s = assign_copy this rhs s"
| "step (MoveAssign this rhs) s = assign_move this rhs s"
| "step (ObjectAssign this rhs) s = assign_object this rhs s"
| "step (DoRelinquish this) s = snd (Relinquish this s)"
| "step (Destroy this) s = CFWrapper_dtor this s"

fun run :: "op list \<Rightarrow> machine \<Rightarrow> machine" where
  "run [] s = s"
| "run (x # xs) s = run xs (step x s)"

fun this_of :: "op \<Rightarrow> addr" where
  "this_of (Construct this object release) = this"
| "this_of (CopyConstruct this rhs) = this"
| "this_of (MoveConstruct this rhs) = this"
| "this_of (CopyAssign this rhs) = this"
| "this_of (MoveAssign this rhs) = this"
| "this_of (ObjectAssign this rhs) = this"
| "this_of (DoRelinquish this) = this"
| "this_of (Destroy this) = this"

text \<open>The host calls one operation issues: what it appends to the call log.\<close>

definition issued :: "op \<Rightarrow> machine \<Rightarrow> host_call list" where
  "issued x s = drop (length (calls s)) (calls (step x s))"

subsection \<open>The ledger of ownerships of one wrapper\<close>

text \<open>
  A wrapper holds an ownership of \<open>h\<close> when it is in state \<open>Owning h\<close>: it is then
  due to release \<open>h\<close> once.
\<close>

definition holds :: "addr \<Rightarrow> CFTypeRef \<Rightarrow> machine \<Rightarrow> nat" where
  "holds a h s = (if Owning h (mem s a) then 1 else 0)"

text \<open>
  The references to \<open>h\<close> that \<open>this\<close> takes over from the caller: construction
  with \<open>release = true\<close> adopts one outstanding reference of a non-empty handle, and
  so does assignment of a raw handle, but only when the handle is distinct from the one
  the wrapper holds. An assignment of the handle already held is skipped by
  \<^verbatim>\<open>if(mObject != rhs)\<close>: nothing is adopted, and the wrapper gains no ownership.
\<close>

fun adopted :: "CFTypeRef \<Rightarrow> op \<Rightarrow> machine \<Rightarrow> nat" where
  "adopted h (Construct this object release) s =
     (if object = h \<and> h \<noteq> nullptr \<and> release then 1 else 0)"
| "adopted h (ObjectAssign this rhs) s =
     (if mObject (mem s this) \<noteq> rhs \<and> rhs = h \<and> h \<noteq> nullptr then 1 else 0)"
| "adopted h _ s = 0"

text \<open>
  An ownership of \<open>h\<close> passes from \<open>rhs\<close> to \<open>this\<close> (the pair returned: source,
  destination) when a move constructor or an effective move assignment takes it from a
  source in state \<open>Owning h\<close>.
\<close>

fun moved :: "CFTypeRef \<Rightarrow> op \<Rightarrow> machine \<Rightarrow> (addr \<times> addr) option" where
  "moved h (MoveConstruct this rhs) s =
     (if this \<noteq> rhs \<and> Owning h (mem s rhs) then Some (rhs, this) else None)"
| "moved h (MoveAssign this rhs) s =
     (if mObject (mem s this) \<noteq> mObject (mem s rhs) \<and> Owning h (mem s rhs)
      then Some (rhs, this) else None)"
| "moved h _ s = None"

text \<open>\<open>Relinquish\<close> on a wrapper in state \<open>Owning h\<close> hands its ownership to the caller.\<close>

fun relinquished :: "addr \<Rightarrow> CFTypeRef \<Rightarrow> op \<Rightarrow> machine \<Rightarrow> nat" where
  "relinquished a h (DoRelinquish this) s = (if this = a \<and> Owning h (mem s a) then 1 else 0)"
| "relinquished a h _ s = 0"

text \<open>
  For the wrapper at \<open>a\<close> and the handle \<open>h\<close>, per operation: the \<open>Release h\<close>
  calls issued by \<open>a\<close>'s own member functions; the ownerships \<open>a\<close> gains (adopted
  from the caller, acquired by its own \<open>Retain h\<close>, moved in); the ownerships it gives
  away unreleased (moved out, relinquished).
\<close>

definition released :: "addr \<Rightarrow> CFTypeRef \<Rightarrow> op \<Rightarrow> machine \<Rightarrow> nat" where
  "released a h x s = (if this_of x = a then count_list (issued x s) (Release h) else 0)"

definition gained :: "addr \<Rightarrow> CFTypeRef \<Rightarrow> op \<Rightarrow> machine \<Rightarrow> nat" where
  "gained a h x s =
     (if this_of x = a
      then adopted h x s + count_list (issued x s) (Retain h)
           + (case moved h x s of Some (src, dst) \<Rightarrow> 1 | None \<Rightarrow> 0)
      else 0)"

definition given :: "addr \<Rightarrow> CFTypeRef \<Rightarrow> op \<Rightarrow> machine \<Rightarrow> nat" where
  "given a h x s =
     (case moved h x s of Some (src, dst) \<Rightarrow> (if src = a then 1 else 0) | None \<Rightarrow> 0)
     + relinquished a h x s"

text \<open>The sum of a per-operation quantity along a run.\<close>

fun total :: "(op \<Rightarrow> machine \<Rightarrow> nat) \<Rightarrow> op list \<Rightarrow> machine \<Rightarrow> nat" where
  "total f [] s = 0"
| "total f (x # xs) s = f x s + total f xs (step x s)"

section \<open>The deferred closure\<close>

text \<open>
  \<^verbatim>\<open>SFBDeferredClosure<F>\<close> keeps a reference to the caller's callable
  (\<^verbatim>\<open>const F& mClosure\<close>), not a copy. The scope it lives in: the callables by
  address (calling one transforms the environment it captured), the environment, and the
  log of the callables invoked so far.
\<close>

type_synonym closure_ref = nat

record 'e scope =
  closures :: "closure_ref \<Rightarrow> 'e \<Rightarrow> 'e"
  env :: 'e
  invoked :: "closure_ref list"

record SFBDeferredClosure =
  mClosure :: closure_ref

text \<open>\<^verbatim>\<open>mClosure()\<close>: the call of the callable a reference points to.\<close>

definition call_closure :: "closure_ref \<Rightarrow> 'e scope \<Rightarrow> 'e scope" where
  "call_closure r w = w\<lparr>env := closures w r (env w), invoked := invoked w @ [r]\<rparr>"

text \<open>\<^verbatim>\<open>SFBDeferredClosure(const F& closure) noexcept : mClosure(closure) {}\<close>\<close>

definition SFBDeferredClosure_ctor ::
  "closure_ref \<Rightarrow> 'e scope \<Rightarrow> SFBDeferredClosure \<times> 'e scope" where
  "SFBDeferredClosure_ctor closure w = (\<lparr>mClosure = closure\<rparr>, w)"

text \<open>\<^verbatim>\<open>~SFBDeferredClosure() { mClosure(); }\<close>\<close>

definition SFBDeferredClosure_dtor :: "SFBDeferredClosure \<Rightarrow> 'e scope \<Rightarrow> 'e scope" where
  "SFBDeferredClosure_dtor d w = call_closure (mClosure d) w"

section \<open>Concrete inputs\<close>

text \<open>A machine to start from: every wrapper slot empty, every count 1.\<close>

definition boot :: machine where
  "boot = \<lparr>mem = (\<lambda>_. \<lparr>mObject = nullptr, mRelease = False\<rparr>),
           refcount = (\<lambda>_. 1), calls = []\<rparr>"

text \<open>
  A program over three wrappers: 1 adopts object 7, 2 is copied from 1, 3 is move-assigned
  from 1, 1 is assigned object 9, 2 relinquishes, and all three are destroyed.
\<close>

definition life :: "op list" where
  "life = [Construct 1 7 True, CopyConstruct 2 1, MoveAssign 3 1, ObjectAssign 1 9,
           DoRelinquish 2, Destroy 1, Destroy 2, Destroy 3]"

text \<open>
  A wrapper adopts object 7, is assigned the raw handle 7 again, and is destroyed.
\<close>

definition readopt :: "op list" where
  "readopt = [Construct 1 7 True, ObjectAssign 1 7, Destroy 1]"

text \<open>
  A scope with one callable, at reference 1, that sets a boolean flag; every other
  reference holds a callable that does nothing.
\<close>

definition flag_scope :: "bool scope" where
  "flag_scope = \<lparr>closures = (\<lambda>r. if r = 1 then (\<lambda>_. True) else id),
                 env = False, invoked = []\<rparr>"

section \<open>Basic facts about the machine\<close>

lemma CFRetain_simps:
  "mem (CFRetain h s) = mem s"
  "calls (CFRetain h s) = calls s @ [Retain h]"
  "refcount (CFRetain h s) = (refcount s)(h := refcount s h + 1)"
  by (simp_all add: CFRetain_def)

lemma CFRelease_simps:
  "mem (CFRelease h s) = mem s"
  "calls (CFRelease h s) = calls s @ [Release h]"
  "refcount (CFRelease h s) = (refcount s)(h := refcount s h - 1)"
  by (simp_all add: CFRelease_def)

lemma set_mObject_simps:
  "mem (set_mObject p v s) = (mem s)(p := (mem s p)\<lparr>mObject := v\<rparr>)"
  "calls (set_mObject p v s) = calls s"
  "refcount (set_mObject p v s) = refcount s"
  by (simp_all add: set_mObject_def)

lemma set_mRelease_simps:
  "mem (set_mRelease p v s) = (mem s)(p := (mem s p)\<lparr>mRelease := v\<rparr>)"
  "calls (set_mRelease p v s) = calls s"
  "refcount (set_mRelease p v s) = refcount s"
  by (simp_all add: set_mRelease_def)

lemmas machine_simps =
  CFRetain_simps CFRelease_simps set_mObject_simps set_mRelease_simps
  get_mObject_def get_mRelease_def

section \<open>Adoption and destruction\<close>

text \<open>
  Claim C1. Constructing a wrapper from a non-empty handle \<open>h\<close> with \<open>release = true\<close>
  stores \<open>h\<close> with the flag set and calls the host not at all, so \<open>R[h]\<close> is unchanged.
  Destroying any wrapper issues exactly one \<open>Release\<close>, of its handle, if the handle is
  non-empty and the flag is set, and issues no host call otherwise (the wrapper is Empty
  or Borrowing); destroying the adopting wrapper therefore lowers \<open>R[h]\<close> by one.
\<close>

theorem adopt_and_destroy:
  assumes "h \<noteq> nullptr"
  shows "mem (CFWrapper_ctor this h True s) this = \<lparr>mObject = h, mRelease = True\<rparr>
       \<and> Owning h (mem (CFWrapper_ctor this h True s) this)
       \<and> calls (CFWrapper_ctor this h True s) = calls s
       \<and> refcount (CFWrapper_ctor this h True s) = refcount s
       \<and> calls (CFWrapper_dtor p s) =
           calls s @ (if mObject (mem s p) \<noteq> nullptr \<and> mRelease (mem s p)
                      then [Release (mObject (mem s p))] else [])
       \<and> refcount (CFWrapper_dtor p s) =
           (if mObject (mem s p) \<noteq> nullptr \<and> mRelease (mem s p)
            then (refcount s)(mObject (mem s p) := refcount s (mObject (mem s p)) - 1)
            else refcount s)
       \<and> calls (CFWrapper_dtor this (CFWrapper_ctor this h True s)) = calls s @ [Release h]
       \<and> refcount (CFWrapper_dtor this (CFWrapper_ctor this h True s)) h = refcount s h - 1"
  using assms
  by (simp add: CFWrapper_ctor_def CFWrapper_dtor_def Owning_def machine_simps)

theorem adopt_and_destroy_witness:
  "mem (CFWrapper_ctor 1 7 True boot) 1 = \<lparr>mObject = 7, mRelease = True\<rparr>
   \<and> calls (CFWrapper_ctor 1 7 True boot) = []
   \<and> refcount (CFWrapper_ctor 1 7 True boot) 7 = 1
   \<and> calls (CFWrapper_dtor 1 (CFWrapper_ctor 1 7 True boot)) = [Release 7]
   \<and> refcount (CFWrapper_dtor 1 (CFWrapper_ctor 1 7 True boot)) 7 = 0
   \<and> calls (CFWrapper_dtor 1 (CFWrapper_ctor 1 7 False boot)) = []
   \<and> calls (CFWrapper_dtor 1 (CFWrapper_ctor_default 1 boot)) = []"
  using adopt_and_destroy [of 7 1 boot 1]
    adopt_and_destroy [of 7 2 "CFWrapper_ctor 1 7 False boot" 1]
    adopt_and_destroy [of 7 2 "CFWrapper_ctor_default 1 boot" 1]
  by (simp add: boot_def CFWrapper_ctor_def CFWrapper_ctor_default_def
      CFWrapper_ctor_object_def machine_simps)

section \<open>Copying\<close>

text \<open>
  Claim C2, as the code has it. Copy construction from a wrapper in state \<open>Owning h\<close>,
  and copy assignment from such a wrapper to a wrapper whose current handle is not \<open>h\<close>,
  issue exactly one \<open>Retain h\<close> (after the \<open>Release\<close> of the handle the target of
  an assignment owned before, if any), so \<open>R[h]\<close> grows by exactly one; both wrappers
  are then in state \<open>Owning h\<close>, and destroying either of them issues exactly one
  \<open>Release h\<close>.
\<close>

theorem copy_acquires_one_reference:
  assumes "Owning h (mem s rhs)"
  shows "(let s' = CFWrapper_ctor_copy this rhs s in
            calls s' = calls s @ [Retain h]
          \<and> refcount s' = (refcount s)(h := refcount s h + 1)
          \<and> Owning h (mem s' this) \<and> Owning h (mem s' rhs)
          \<and> calls (CFWrapper_dtor this s') = calls s' @ [Release h]
          \<and> calls (CFWrapper_dtor rhs s') = calls s' @ [Release h])
       \<and> (mObject (mem s this) \<noteq> h \<longrightarrow>
          (let s' = assign_copy this rhs s in
            calls s' = calls s
               @ (if mObject (mem s this) \<noteq> nullptr \<and> mRelease (mem s this)
                  then [Release (mObject (mem s this))] else [])
               @ [Retain h]
          \<and> refcount s' h = refcount s h + 1
          \<and> Owning h (mem s' this) \<and> Owning h (mem s' rhs)
          \<and> calls (CFWrapper_dtor this s') = calls s' @ [Release h]
          \<and> calls (CFWrapper_dtor rhs s') = calls s' @ [Release h]))"
proof -
  from assms have h: "h \<noteq> nullptr" "mObject (mem s rhs) = h" "mRelease (mem s rhs)"
    by (simp_all add: Owning_def)
  have ctor: "let s' = CFWrapper_ctor_copy this rhs s in
            calls s' = calls s @ [Retain h]
          \<and> refcount s' = (refcount s)(h := refcount s h + 1)
          \<and> Owning h (mem s' this) \<and> Owning h (mem s' rhs)
          \<and> calls (CFWrapper_dtor this s') = calls s' @ [Release h]
          \<and> calls (CFWrapper_dtor rhs s') = calls s' @ [Release h]"
    using h
    by (cases "this = rhs")
      (simp_all add: CFWrapper_ctor_copy_def CFWrapper_dtor_def Owning_def Let_def machine_simps)
  have asg: "let s' = assign_copy this rhs s in
            calls s' = calls s
               @ (if mObject (mem s this) \<noteq> nullptr \<and> mRelease (mem s this)
                  then [Release (mObject (mem s this))] else [])
               @ [Retain h]
          \<and> refcount s' h = refcount s h + 1
          \<and> Owning h (mem s' this) \<and> Owning h (mem s' rhs)
          \<and> calls (CFWrapper_dtor this s') = calls s' @ [Release h]
          \<and> calls (CFWrapper_dtor rhs s') = calls s' @ [Release h]"
    if "mObject (mem s this) \<noteq> h"
  proof -
    from that h have ne: "this \<noteq> rhs" by auto
    show ?thesis
      using h that ne
      by (simp add: assign_copy_def CFWrapper_dtor_def Owning_def Let_def machine_simps)
  qed
  from ctor asg show ?thesis by blast
qed

theorem copy_acquires_one_reference_witness:
  "Owning 7 (mem (CFWrapper_ctor 1 7 True boot) 1)
   \<and> calls (CFWrapper_ctor_copy 2 1 (CFWrapper_ctor 1 7 True boot)) = [Retain 7]
   \<and> refcount (CFWrapper_ctor_copy 2 1 (CFWrapper_ctor 1 7 True boot)) 7 = 2
   \<and> calls (CFWrapper_dtor 2 (CFWrapper_ctor_copy 2 1 (CFWrapper_ctor 1 7 True boot)))
       = [Retain 7, Release 7]
   \<and> mObject (mem (CFWrapper_ctor 1 7 True boot) 3) \<noteq> 7
   \<and> calls (assign_copy 3 1 (CFWrapper_ctor 1 7 True boot)) = [Retain 7]
   \<and> refcount (assign_copy 3 1 (CFWrapper_ctor 1 7 True boot)) 7 = 2
   \<and> calls (CFWrapper_dtor 1 (assign_copy 3 1 (CFWrapper_ctor 1 7 True boot)))
       = [Retain 7, Release 7]"
proof -
  have o: "Owning 7 (mem (CFWrapper_ctor 1 7 True boot) 1)"
    by (simp add: Owning_def CFWrapper_ctor_def boot_def machine_simps)
  have e: "mObject (mem (CFWrapper_ctor 1 7 True boot) 3) \<noteq> 7"
    by (simp add: CFWrapper_ctor_def boot_def machine_simps)
  have c: "calls (CFWrapper_ctor 1 7 True boot) = []"
    "refcount (CFWrapper_ctor 1 7 True boot) 7 = 1"
    "mObject (mem (CFWrapper_ctor 1 7 True boot) 3) = nullptr"
    by (simp_all add: CFWrapper_ctor_def boot_def machine_simps)
  from copy_acquires_one_reference [OF o, of 2] copy_acquires_one_reference [OF o, of 3] o e c
  show ?thesis by (simp add: Let_def)
qed

text \<open>
  The claim as the spec words it covers every copy assignment from an owning wrapper.
  Where the target already holds the same handle (here a wrapper borrowing object 7,
  assigned from a wrapper owning object 7) the guard \<^verbatim>\<open>if(mObject != rhs.mObject)\<close>
  skips the body: no \<open>Retain\<close> is issued, \<open>R[7]\<close> stays, and the target stays
  Borrowing, so destroying it releases nothing.
\<close>

theorem copy_assign_same_handle_counterexample:
  "Owning 7 (mem (CFWrapper_ctor 2 7 True (CFWrapper_ctor 1 7 False boot)) 2)
   \<and> calls (assign_copy 1 2 (CFWrapper_ctor 2 7 True (CFWrapper_ctor 1 7 False boot))) = []
   \<and> refcount (assign_copy 1 2 (CFWrapper_ctor 2 7 True (CFWrapper_ctor 1 7 False boot))) 7
       \<noteq> refcount (CFWrapper_ctor 2 7 True (CFWrapper_ctor 1 7 False boot)) 7 + 1
   \<and> calls (CFWrapper_dtor 1
        (assign_copy 1 2 (CFWrapper_ctor 2 7 True (CFWrapper_ctor 1 7 False boot)))) = []"
  by (simp add: Owning_def assign_copy_def CFWrapper_ctor_def CFWrapper_dtor_def boot_def
      machine_simps)

section \<open>Moving\<close>

text \<open>
  Claim C3, as the code has it. Move construction from a wrapper in state \<open>Owning h\<close>
  (into a different object) gives the destination the handle and the flag, so it is in
  state \<open>Owning h\<close>; it calls the host not at all, so \<open>R[h]\<close> is unchanged. The
  source's handle becomes empty and its flag is left as it was (set); being Empty, the
  source issues no \<open>Release\<close> when it is destroyed, and the destination issues one.
\<close>

theorem move_ctor_transfers:
  assumes "Owning h (mem s rhs)" and "this \<noteq> rhs"
  shows "(let s' = CFWrapper_ctor_move this rhs s in
            mem s' this = mem s rhs
          \<and> Owning h (mem s' this)
          \<and> calls s' = calls s
          \<and> refcount s' = refcount s
          \<and> Empty (mem s' rhs)
          \<and> mRelease (mem s' rhs) = mRelease (mem s rhs)
          \<and> calls (CFWrapper_dtor rhs s') = calls s'
          \<and> refcount (CFWrapper_dtor rhs s') = refcount s'
          \<and> calls (CFWrapper_dtor this s') = calls s' @ [Release h])"
  using assms
  by (simp add: CFWrapper_ctor_move_def CFWrapper_dtor_def Owning_def Empty_def Let_def
      machine_simps)

theorem move_ctor_transfers_witness:
  "Owning 7 (mem (CFWrapper_ctor 1 7 True boot) 1)
   \<and> mem (CFWrapper_ctor_move 2 1 (CFWrapper_ctor 1 7 True boot)) 2
       = \<lparr>mObject = 7, mRelease = True\<rparr>
   \<and> mem (CFWrapper_ctor_move 2 1 (CFWrapper_ctor 1 7 True boot)) 1
       = \<lparr>mObject = nullptr, mRelease = True\<rparr>
   \<and> calls (CFWrapper_ctor_move 2 1 (CFWrapper_ctor 1 7 True boot)) = []
   \<and> calls (CFWrapper_dtor 1 (CFWrapper_ctor_move 2 1 (CFWrapper_ctor 1 7 True boot))) = []"
proof -
  have o: "Owning 7 (mem (CFWrapper_ctor 1 7 True boot) 1)"
    by (simp add: Owning_def CFWrapper_ctor_def boot_def machine_simps)
  have n: "(2::addr) \<noteq> 1" by simp
  have c: "calls (CFWrapper_ctor 1 7 True boot) = []"
    "mem (CFWrapper_ctor 1 7 True boot) 1 = \<lparr>mObject = 7, mRelease = True\<rparr>"
    by (simp_all add: CFWrapper_ctor_def boot_def machine_simps)
  have m: "mem (CFWrapper_ctor_move 2 1 (CFWrapper_ctor 1 7 True boot)) 1
       = \<lparr>mObject = nullptr, mRelease = True\<rparr>"
    by (simp add: CFWrapper_ctor_move_def CFWrapper_ctor_def boot_def machine_simps)
  from move_ctor_transfers [OF o n] o c m show ?thesis by (simp add: Let_def)
qed

text \<open>
  The spec has the source of a move become non-owning. The move constructor writes only
  \<^verbatim>\<open>rhs.mObject\<close>: the flag \<^verbatim>\<open>mRelease\<close> of a source that was Owning is still set
  afterwards.
\<close>

theorem move_ctor_source_flag_counterexample:
  "Owning 7 (mem (CFWrapper_ctor 1 7 True boot) 1)
   \<and> mRelease (mem (CFWrapper_ctor_move 2 1 (CFWrapper_ctor 1 7 True boot)) 1)"
  by (simp add: Owning_def CFWrapper_ctor_move_def CFWrapper_ctor_def boot_def machine_simps)

section \<open>Assignment from another wrapper\<close>

text \<open>
  Claim C4. Copy and move assignment from a wrapper whose handle is the target's current
  handle change nothing at all; so self-assignment (\<open>this = rhs\<close>) changes nothing, and
  in particular no reference count. Where the handles differ, the handle the target holds
  is released if it is non-empty and the target's flag is set; then the source's handle
  and flag are installed in the target; copy assignment then retains the new handle if
  it is non-empty and the flag is set; move assignment instead empties the source's
  handle.
\<close>

theorem assign_from_wrapper:
  "(mObject (mem s this) = mObject (mem s rhs) \<longrightarrow>
      assign_copy this rhs s = s \<and> assign_move this rhs s = s)
   \<and> assign_copy this this s = s \<and> assign_move this this s = s
   \<and> (mObject (mem s this) \<noteq> mObject (mem s rhs) \<longrightarrow>
       (let old = mem s this; new = mem s rhs;
            released = (if mObject old \<noteq> nullptr \<and> mRelease old
                        then [Release (mObject old)] else []);
            retained = (if mObject new \<noteq> nullptr \<and> mRelease new
                        then [Retain (mObject new)] else []);
            R1 = (if mObject old \<noteq> nullptr \<and> mRelease old
                  then (refcount s)(mObject old := refcount s (mObject old) - 1)
                  else refcount s);
            R2 = (if mObject new \<noteq> nullptr \<and> mRelease new
                  then R1(mObject new := R1 (mObject new) + 1)
                  else R1)
        in calls (assign_copy this rhs s) = calls s @ released @ retained
         \<and> mem (assign_copy this rhs s) = (mem s)(this := new)
         \<and> refcount (assign_copy this rhs s) = R2
         \<and> calls (assign_move this rhs s) = calls s @ released
         \<and> mem (assign_move this rhs s) =
             (mem s)(this := new, rhs := new\<lparr>mObject := nullptr\<rparr>)
         \<and> refcount (assign_move this rhs s) = R1))"
proof -
  have same: "assign_copy this rhs s = s \<and> assign_move this rhs s = s"
    if "mObject (mem s this) = mObject (mem s rhs)"
    using that by (simp add: assign_copy_def assign_move_def get_mObject_def)
  have self: "assign_copy this this s = s \<and> assign_move this this s = s"
    by (simp add: assign_copy_def assign_move_def)
  have differ: "let old = mem s this; new = mem s rhs;
            released = (if mObject old \<noteq> nullptr \<and> mRelease old
                        then [Release (mObject old)] else []);
            retained = (if mObject new \<noteq> nullptr \<and> mRelease new
                        then [Retain (mObject new)] else []);
            R1 = (if mObject old \<noteq> nullptr \<and> mRelease old
                  then (refcount s)(mObject old := refcount s (mObject old) - 1)
                  else refcount s);
            R2 = (if mObject new \<noteq> nullptr \<and> mRelease new
                  then R1(mObject new := R1 (mObject new) + 1)
                  else R1)
        in calls (assign_copy this rhs s) = calls s @ released @ retained
         \<and> mem (assign_copy this rhs s) = (mem s)(this := new)
         \<and> refcount (assign_copy this rhs s) = R2
         \<and> calls (assign_move this rhs s) = calls s @ released
         \<and> mem (assign_move this rhs s) =
             (mem s)(this := new, rhs := new\<lparr>mObject := nullptr\<rparr>)
         \<and> refcount (assign_move this rhs s) = R1"
    if d: "mObject (mem s this) \<noteq> mObject (mem s rhs)"
  proof -
    from d have ne: "this \<noteq> rhs" by auto
    have c: "calls (assign_copy this rhs s) = calls s
        @ (if mObject (mem s this) \<noteq> nullptr \<and> mRelease (mem s this)
           then [Release (mObject (mem s this))] else [])
        @ (if mObject (mem s rhs) \<noteq> nullptr \<and> mRelease (mem s rhs)
           then [Retain (mObject (mem s rhs))] else [])"
      using d ne by (simp add: assign_copy_def Let_def machine_simps)
    have m: "mem (assign_copy this rhs s) = (mem s)(this := mem s rhs)"
      using d ne by (simp add: assign_copy_def Let_def machine_simps fun_eq_iff)
    have r: "refcount (assign_copy this rhs s) =
        (let R1 = (if mObject (mem s this) \<noteq> nullptr \<and> mRelease (mem s this)
                   then (refcount s)(mObject (mem s this) := refcount s (mObject (mem s this)) - 1)
                   else refcount s)
         in if mObject (mem s rhs) \<noteq> nullptr \<and> mRelease (mem s rhs)
            then R1(mObject (mem s rhs) := R1 (mObject (mem s rhs)) + 1)
            else R1)"
      using d ne by (simp add: assign_copy_def Let_def machine_simps)
    have c': "calls (assign_move this rhs s) = calls s
        @ (if mObject (mem s this) \<noteq> nullptr \<and> mRelease (mem s this)
           then [Release (mObject (mem s this))] else [])"
      using d ne by (simp add: assign_move_def Let_def machine_simps)
    have m': "mem (assign_move this rhs s) =
        (mem s)(this := mem s rhs, rhs := (mem s rhs)\<lparr>mObject := nullptr\<rparr>)"
      using d ne by (simp add: assign_move_def Let_def machine_simps fun_eq_iff)
    have r': "refcount (assign_move this rhs s) =
        (if mObject (mem s this) \<noteq> nullptr \<and> mRelease (mem s this)
         then (refcount s)(mObject (mem s this) := refcount s (mObject (mem s this)) - 1)
         else refcount s)"
      using d ne by (simp add: assign_move_def Let_def machine_simps)
    from c m r c' m' r' show ?thesis by (simp only: Let_def)
  qed
  from same self differ show ?thesis by blast
qed

theorem assign_from_wrapper_witness:
  "assign_copy 1 1 (CFWrapper_ctor 1 7 True boot) = CFWrapper_ctor 1 7 True boot
   \<and> assign_move 1 1 (CFWrapper_ctor 1 7 True boot) = CFWrapper_ctor 1 7 True boot
   \<and> assign_copy 2 1 (CFWrapper_ctor 2 7 False (CFWrapper_ctor 1 7 True boot))
       = CFWrapper_ctor 2 7 False (CFWrapper_ctor 1 7 True boot)
   \<and> calls (assign_copy 2 1 (CFWrapper_ctor 2 9 True (CFWrapper_ctor 1 7 True boot)))
       = [Release 9, Retain 7]
   \<and> calls (assign_move 2 1 (CFWrapper_ctor 2 9 True (CFWrapper_ctor 1 7 True boot)))
       = [Release 9]
   \<and> mem (assign_move 2 1 (CFWrapper_ctor 2 9 True (CFWrapper_ctor 1 7 True boot))) 1
       = \<lparr>mObject = nullptr, mRelease = True\<rparr>
   \<and> mem (assign_move 2 1 (CFWrapper_ctor 2 9 True (CFWrapper_ctor 1 7 True boot))) 2
       = \<lparr>mObject = 7, mRelease = True\<rparr>"
proof -
  have a: "mem (CFWrapper_ctor 2 7 False (CFWrapper_ctor 1 7 True boot)) 1
             = \<lparr>mObject = 7, mRelease = True\<rparr>"
    "mem (CFWrapper_ctor 2 7 False (CFWrapper_ctor 1 7 True boot)) 2
             = \<lparr>mObject = 7, mRelease = False\<rparr>"
    by (simp_all add: CFWrapper_ctor_def boot_def machine_simps)
  have b: "mem (CFWrapper_ctor 2 9 True (CFWrapper_ctor 1 7 True boot)) 1
             = \<lparr>mObject = 7, mRelease = True\<rparr>"
    "mem (CFWrapper_ctor 2 9 True (CFWrapper_ctor 1 7 True boot)) 2
             = \<lparr>mObject = 9, mRelease = True\<rparr>"
    "calls (CFWrapper_ctor 2 9 True (CFWrapper_ctor 1 7 True boot)) = []"
    by (simp_all add: CFWrapper_ctor_def boot_def machine_simps)
  from assign_from_wrapper [of "CFWrapper_ctor 1 7 True boot" 1 1]
    assign_from_wrapper [of "CFWrapper_ctor 2 7 False (CFWrapper_ctor 1 7 True boot)" 2 1]
    assign_from_wrapper [of "CFWrapper_ctor 2 9 True (CFWrapper_ctor 1 7 True boot)" 2 1]
    a b
  show ?thesis by (simp add: Let_def)
qed

section \<open>Assignment from a raw handle\<close>

text \<open>
  Claim C5. Assigning a raw handle \<open>h\<close> that is not the wrapper's current handle
  releases the current handle if it is non-empty and the flag is set, then installs
  \<open>h\<close> and sets the flag. No \<open>Retain\<close> is issued: the only host call is that
  \<open>Release\<close>, and \<open>R[h]\<close> is what it was.
\<close>

theorem assign_object_adopts:
  assumes "mObject (mem s this) \<noteq> h"
  shows "calls (assign_object this h s) =
           calls s @ (if mObject (mem s this) \<noteq> nullptr \<and> mRelease (mem s this)
                      then [Release (mObject (mem s this))] else [])
       \<and> refcount (assign_object this h s) =
           (if mObject (mem s this) \<noteq> nullptr \<and> mRelease (mem s this)
            then (refcount s)(mObject (mem s this) := refcount s (mObject (mem s this)) - 1)
            else refcount s)
       \<and> refcount (assign_object this h s) h = refcount s h
       \<and> mem (assign_object this h s) = (mem s)(this := \<lparr>mObject = h, mRelease = True\<rparr>)
       \<and> (\<forall>x. Retain x \<in> set (calls (assign_object this h s)) \<longleftrightarrow> Retain x \<in> set (calls s))"
  using assms
  by (simp add: assign_object_def Let_def machine_simps fun_eq_iff)

theorem assign_object_adopts_witness:
  "mObject (mem (CFWrapper_ctor 1 7 True boot) 1) \<noteq> 9
   \<and> calls (assign_object 1 9 (CFWrapper_ctor 1 7 True boot)) = [Release 7]
   \<and> refcount (assign_object 1 9 (CFWrapper_ctor 1 7 True boot)) 9 = 1
   \<and> refcount (assign_object 1 9 (CFWrapper_ctor 1 7 True boot)) 7 = 0
   \<and> mem (assign_object 1 9 (CFWrapper_ctor 1 7 True boot)) 1
       = \<lparr>mObject = 9, mRelease = True\<rparr>
   \<and> calls (assign_object 1 9 (CFWrapper_ctor 1 7 False boot)) = []
   \<and> mem (assign_object 1 9 (CFWrapper_ctor 1 7 False boot)) 1
       = \<lparr>mObject = 9, mRelease = True\<rparr>"
proof -
  have a: "mem (CFWrapper_ctor 1 7 True boot) 1 = \<lparr>mObject = 7, mRelease = True\<rparr>"
    "calls (CFWrapper_ctor 1 7 True boot) = []"
    "refcount (CFWrapper_ctor 1 7 True boot) = (\<lambda>_. 1)"
    "mem (CFWrapper_ctor 1 7 False boot) 1 = \<lparr>mObject = 7, mRelease = False\<rparr>"
    "calls (CFWrapper_ctor 1 7 False boot) = []"
    by (simp_all add: CFWrapper_ctor_def boot_def machine_simps)
  have n: "mObject (mem (CFWrapper_ctor 1 7 True boot) 1) \<noteq> 9"
    "mObject (mem (CFWrapper_ctor 1 7 False boot) 1) \<noteq> 9"
    by (simp_all add: CFWrapper_ctor_def boot_def machine_simps)
  from assign_object_adopts [OF n(1)] assign_object_adopts [OF n(2)] a
  show ?thesis by simp
qed

text \<open>
  Claim C10. Assigning the raw handle the wrapper already holds changes nothing at all,
  the flag included. A wrapper in state \<open>Borrowing h\<close> that is assigned \<open>h\<close> is
  still Borrowing afterwards (the flag is not set), and destroying it issues no
  \<open>Release\<close>: the assigned handle's outstanding reference is not released through it.
\<close>

theorem assign_object_same_handle:
  assumes "mObject (mem s this) = h"
  shows "assign_object this h s = s
       \<and> (Borrowing h (mem s this) \<longrightarrow>
            Borrowing h (mem (assign_object this h s) this)
          \<and> \<not> mRelease (mem (assign_object this h s) this)
          \<and> calls (CFWrapper_dtor this (assign_object this h s)) = calls s
          \<and> refcount (CFWrapper_dtor this (assign_object this h s)) = refcount s)"
  using assms
  by (simp add: assign_object_def CFWrapper_dtor_def Borrowing_def machine_simps)

theorem assign_object_same_handle_witness:
  "mObject (mem (CFWrapper_ctor 1 7 False boot) 1) = 7
   \<and> Borrowing 7 (mem (CFWrapper_ctor 1 7 False boot) 1)
   \<and> assign_object 1 7 (CFWrapper_ctor 1 7 False boot) = CFWrapper_ctor 1 7 False boot
   \<and> \<not> mRelease (mem (assign_object 1 7 (CFWrapper_ctor 1 7 False boot)) 1)
   \<and> calls (CFWrapper_dtor 1 (assign_object 1 7 (CFWrapper_ctor 1 7 False boot))) = []"
proof -
  have a: "mObject (mem (CFWrapper_ctor 1 7 False boot) 1) = 7"
    by (simp add: CFWrapper_ctor_def boot_def machine_simps)
  have b: "Borrowing 7 (mem (CFWrapper_ctor 1 7 False boot) 1)"
    "calls (CFWrapper_ctor 1 7 False boot) = []"
    by (simp_all add: Borrowing_def CFWrapper_ctor_def boot_def machine_simps)
  from assign_object_same_handle [OF a] a b show ?thesis
    by (simp add: Borrowing_def CFWrapper_dtor_def machine_simps)
qed

section \<open>Relinquish\<close>

text \<open>
  Claim C6. \<open>Relinquish\<close> returns the wrapper's current handle and empties the
  wrapper's handle; the flag, every other wrapper, the reference counts and the call log
  are as before (no host call). Destroying the wrapper afterwards issues no host call
  either.
\<close>

theorem relinquish_frame:
  "fst (Relinquish this s) = mObject (mem s this)
   \<and> mem (snd (Relinquish this s)) = (mem s)(this := (mem s this)\<lparr>mObject := nullptr\<rparr>)
   \<and> Empty (mem (snd (Relinquish this s)) this)
   \<and> mRelease (mem (snd (Relinquish this s)) this) = mRelease (mem s this)
   \<and> calls (snd (Relinquish this s)) = calls s
   \<and> refcount (snd (Relinquish this s)) = refcount s
   \<and> calls (CFWrapper_dtor this (snd (Relinquish this s))) = calls s
   \<and> refcount (CFWrapper_dtor this (snd (Relinquish this s))) = refcount s"
  by (simp add: Relinquish_def CFWrapper_dtor_def Empty_def Let_def machine_simps)

theorem relinquish_frame_witness:
  "fst (Relinquish 1 (CFWrapper_ctor 1 7 True boot)) = 7
   \<and> mem (snd (Relinquish 1 (CFWrapper_ctor 1 7 True boot))) 1
       = \<lparr>mObject = nullptr, mRelease = True\<rparr>
   \<and> refcount (snd (Relinquish 1 (CFWrapper_ctor 1 7 True boot))) 7 = 1
   \<and> calls (CFWrapper_dtor 1 (snd (Relinquish 1 (CFWrapper_ctor 1 7 True boot)))) = []"
proof -
  have a: "mem (CFWrapper_ctor 1 7 True boot) 1 = \<lparr>mObject = 7, mRelease = True\<rparr>"
    "calls (CFWrapper_ctor 1 7 True boot) = []"
    "refcount (CFWrapper_ctor 1 7 True boot) = (\<lambda>_. 1)"
    by (simp_all add: CFWrapper_ctor_def boot_def machine_simps)
  from relinquish_frame [of 1 "CFWrapper_ctor 1 7 True boot"] a
  show ?thesis by simp
qed

section \<open>Equality\<close>

text \<open>
  Claim C8. \<open>a == b\<close> is true when the two handles are identical (both empty
  included); it is false when they differ and one of them is empty; and when they differ
  and both are non-empty it is what the host's \<open>Equal\<close> says of the two handles, in
  that order. \<open>a != b\<close> is the negation.
\<close>

theorem equality_cases:
  "(mObject (mem s a) = mObject (mem s b) \<longrightarrow> operator_eq CFEqual a b s)
   \<and> (mObject (mem s a) \<noteq> mObject (mem s b)
        \<and> (mObject (mem s a) = nullptr \<or> mObject (mem s b) = nullptr)
      \<longrightarrow> \<not> operator_eq CFEqual a b s)
   \<and> (mObject (mem s a) \<noteq> mObject (mem s b)
        \<and> mObject (mem s a) \<noteq> nullptr \<and> mObject (mem s b) \<noteq> nullptr
      \<longrightarrow> operator_eq CFEqual a b s = CFEqual (mObject (mem s a)) (mObject (mem s b)))
   \<and> operator_ne CFEqual a b s = (\<not> operator_eq CFEqual a b s)"
  by (simp add: operator_eq_def operator_ne_def get_mObject_def)

theorem equality_cases_witness:
  "operator_eq (\<lambda>x y. x + 2 = y) 1 2 (CFWrapper_ctor 2 7 False (CFWrapper_ctor 1 7 True boot))
   \<and> operator_eq (\<lambda>x y. x + 2 = y) 3 4 (CFWrapper_ctor 2 7 False (CFWrapper_ctor 1 7 True boot))
   \<and> \<not> operator_eq (\<lambda>x y. x + 2 = y) 1 3 (CFWrapper_ctor 2 7 False (CFWrapper_ctor 1 7 True boot))
   \<and> \<not> operator_eq (\<lambda>x y. x + 2 = y) 3 1 (CFWrapper_ctor 2 7 False (CFWrapper_ctor 1 7 True boot))
   \<and> operator_eq (\<lambda>x y. x + 2 = y) 1 2 (CFWrapper_ctor 2 9 True (CFWrapper_ctor 1 7 True boot))
   \<and> \<not> operator_eq (\<lambda>x y. x + 2 = y) 2 1 (CFWrapper_ctor 2 9 True (CFWrapper_ctor 1 7 True boot))
   \<and> operator_ne (\<lambda>x y. x + 2 = y) 2 1 (CFWrapper_ctor 2 9 True (CFWrapper_ctor 1 7 True boot))"
proof -
  have a: "mem (CFWrapper_ctor 2 7 False (CFWrapper_ctor 1 7 True boot)) 1
             = \<lparr>mObject = 7, mRelease = True\<rparr>"
    "mem (CFWrapper_ctor 2 7 False (CFWrapper_ctor 1 7 True boot)) 2
             = \<lparr>mObject = 7, mRelease = False\<rparr>"
    "mem (CFWrapper_ctor 2 7 False (CFWrapper_ctor 1 7 True boot)) 3
             = \<lparr>mObject = nullptr, mRelease = False\<rparr>"
    "mem (CFWrapper_ctor 2 7 False (CFWrapper_ctor 1 7 True boot)) 4
             = \<lparr>mObject = nullptr, mRelease = False\<rparr>"
    "mem (CFWrapper_ctor 2 9 True (CFWrapper_ctor 1 7 True boot)) 1
             = \<lparr>mObject = 7, mRelease = True\<rparr>"
    "mem (CFWrapper_ctor 2 9 True (CFWrapper_ctor 1 7 True boot)) 2
             = \<lparr>mObject = 9, mRelease = True\<rparr>"
    by (simp_all add: CFWrapper_ctor_def boot_def machine_simps)
  from
    equality_cases [of "CFWrapper_ctor 2 7 False (CFWrapper_ctor 1 7 True boot)" 1 2 "\<lambda>x y. x + 2 = y"]
    equality_cases [of "CFWrapper_ctor 2 7 False (CFWrapper_ctor 1 7 True boot)" 3 4 "\<lambda>x y. x + 2 = y"]
    equality_cases [of "CFWrapper_ctor 2 7 False (CFWrapper_ctor 1 7 True boot)" 1 3 "\<lambda>x y. x + 2 = y"]
    equality_cases [of "CFWrapper_ctor 2 7 False (CFWrapper_ctor 1 7 True boot)" 3 1 "\<lambda>x y. x + 2 = y"]
    equality_cases [of "CFWrapper_ctor 2 9 True (CFWrapper_ctor 1 7 True boot)" 1 2 "\<lambda>x y. x + 2 = y"]
    equality_cases [of "CFWrapper_ctor 2 9 True (CFWrapper_ctor 1 7 True boot)" 2 1 "\<lambda>x y. x + 2 = y"]
    a
  show ?thesis by simp
qed

section \<open>No double release\<close>

lemmas op_defs = CFWrapper_ctor_def CFWrapper_ctor_copy_def CFWrapper_ctor_move_def
  assign_copy_def assign_move_def assign_object_def Relinquish_def CFWrapper_dtor_def

lemma issued_simps:
  "issued (Construct this object release) s = []"
  "issued (CopyConstruct this rhs) s =
     (if mObject (mem s rhs) \<noteq> nullptr \<and> mRelease (mem s rhs)
      then [Retain (mObject (mem s rhs))] else [])"
  "issued (MoveConstruct this rhs) s = []"
  "issued (CopyAssign this rhs) s =
     (if mObject (mem s this) \<noteq> mObject (mem s rhs) then
        (if mObject (mem s this) \<noteq> nullptr \<and> mRelease (mem s this)
         then [Release (mObject (mem s this))] else [])
        @ (if mObject (mem s rhs) \<noteq> nullptr \<and> mRelease (mem s rhs)
           then [Retain (mObject (mem s rhs))] else [])
      else [])"
  "issued (MoveAssign this rhs) s =
     (if mObject (mem s this) \<noteq> mObject (mem s rhs)
           \<and> mObject (mem s this) \<noteq> nullptr \<and> mRelease (mem s this)
      then [Release (mObject (mem s this))] else [])"
  "issued (ObjectAssign this h) s =
     (if mObject (mem s this) \<noteq> h
           \<and> mObject (mem s this) \<noteq> nullptr \<and> mRelease (mem s this)
      then [Release (mObject (mem s this))] else [])"
  "issued (DoRelinquish this) s = []"
  "issued (Destroy this) s =
     (if mObject (mem s this) \<noteq> nullptr \<and> mRelease (mem s this)
      then [Release (mObject (mem s this))] else [])"
  subgoal by (simp add: issued_def CFWrapper_ctor_def machine_simps)
  subgoal by (cases "this = rhs")
      (simp_all add: issued_def CFWrapper_ctor_copy_def Let_def machine_simps)
  subgoal by (simp add: issued_def CFWrapper_ctor_move_def Let_def machine_simps)
  subgoal by (cases "this = rhs") (auto simp add: issued_def assign_copy_def Let_def machine_simps)
  subgoal by (cases "this = rhs") (auto simp add: issued_def assign_move_def Let_def machine_simps)
  subgoal by (auto simp add: issued_def assign_object_def Let_def machine_simps)
  subgoal by (simp add: issued_def Relinquish_def Let_def machine_simps)
  subgoal by (simp add: issued_def CFWrapper_dtor_def Let_def machine_simps)
  done

lemma mem_step_simps:
  "mem (step (Construct this object release) s) =
     (mem s)(this := \<lparr>mObject = object, mRelease = release\<rparr>)"
  "mem (step (CopyConstruct this rhs) s) = (mem s)(this := mem s rhs)"
  "mem (step (MoveConstruct this rhs) s) =
     (mem s)(this := mem s rhs, rhs := (mem s rhs)\<lparr>mObject := nullptr\<rparr>)"
  "mem (step (CopyAssign this rhs) s) =
     (if mObject (mem s this) \<noteq> mObject (mem s rhs)
      then (mem s)(this := mem s rhs) else mem s)"
  "mem (step (MoveAssign this rhs) s) =
     (if mObject (mem s this) \<noteq> mObject (mem s rhs)
      then (mem s)(this := mem s rhs, rhs := (mem s rhs)\<lparr>mObject := nullptr\<rparr>)
      else mem s)"
  "mem (step (ObjectAssign this h) s) =
     (if mObject (mem s this) \<noteq> h
      then (mem s)(this := \<lparr>mObject = h, mRelease = True\<rparr>) else mem s)"
  "mem (step (DoRelinquish this) s) = (mem s)(this := (mem s this)\<lparr>mObject := nullptr\<rparr>)"
  "mem (step (Destroy this) s) = (mem s)(this := (mem s this)\<lparr>mObject := nullptr\<rparr>)"
  subgoal by (simp add: CFWrapper_ctor_def machine_simps fun_eq_iff)
  subgoal by (cases "this = rhs")
      (simp_all add: CFWrapper_ctor_copy_def Let_def machine_simps fun_eq_iff)
  subgoal by (cases "this = rhs")
      (simp_all add: CFWrapper_ctor_move_def Let_def machine_simps fun_eq_iff)
  subgoal by (cases "this = rhs") (auto simp add: assign_copy_def Let_def machine_simps fun_eq_iff)
  subgoal by (cases "this = rhs") (auto simp add: assign_move_def Let_def machine_simps fun_eq_iff)
  subgoal by (auto simp add: assign_object_def Let_def machine_simps fun_eq_iff)
  subgoal by (simp add: Relinquish_def Let_def machine_simps)
  subgoal by (simp add: CFWrapper_dtor_def Let_def machine_simps)
  done

text \<open>The call log only grows, by what the operation issues.\<close>

lemma calls_step: "calls (step x s) = calls s @ issued x s"
  by (cases x) (auto simp add: issued_def op_defs Let_def machine_simps)

text \<open>An operation releases \<open>h\<close> at most once, and only if its wrapper holds \<open>h\<close>.\<close>

lemma release_needs_ownership:
  "count_list (issued x s) (Release h) \<le> holds (this_of x) h s"
  by (cases x) (auto simp add: holds_def issued_simps Owning_def simp del: step.simps)

text \<open>One operation keeps the ledger of every wrapper and handle.\<close>

lemma step_ledger:
  "released a h x s + given a h x s + holds a h (step x s) \<le> holds a h s + gained a h x s"
  by (cases x)
    (auto simp add: released_def given_def gained_def holds_def issued_simps mem_step_simps
      Owning_def simp del: step.simps split: if_splits)

lemma run_ledger:
  "total (released a h) xs s + total (given a h) xs s + holds a h (run xs s)
     \<le> holds a h s + total (gained a h) xs s"
proof (induction xs arbitrary: s)
  case Nil
  show ?case by simp
next
  case (Cons x xs)
  from Cons.IH [of "step x s"] step_ledger [of a h x s]
  show ?case by (simp del: step.simps)
qed

text \<open>
  Claim C7. Whatever sequence of constructions, copies, moves, assignments,
  \<open>Relinquish\<close> calls and destructions a program runs, from whatever machine: a single
  operation issues \<open>Release h\<close> at most once, and only when its wrapper holds an
  ownership of \<open>h\<close>; and for every wrapper \<open>a\<close> and handle \<open>h\<close>, the \<open>Release h\<close>
  calls \<open>a\<close> has issued, the ownerships of \<open>h\<close> it has given away unreleased and the
  one it may still hold never add up to more than the ownerships of \<open>h\<close> it held at the
  start or gained since, where an ownership is gained only by an operation that takes
  effect: an adopting construction, an assignment of a raw handle distinct from the one
  held, a \<open>Retain h\<close> of its own, or a move from an owning source. So no ownership is
  released twice.
\<close>

theorem no_double_release:
  "count_list (issued x s) (Release h) \<le> holds (this_of x) h s
   \<and> total (released a h) xs s + total (given a h) xs s + holds a h (run xs s)
        \<le> holds a h s + total (gained a h) xs s"
  using release_needs_ownership run_ledger by blast

theorem no_double_release_witness:
  "calls (run life boot) = [Retain 7, Release 9, Release 7]
   \<and> total (released 3 7) life boot = 1
   \<and> total (given 3 7) life boot = 0
   \<and> holds 3 7 (run life boot) = 0
   \<and> holds 3 7 boot = 0
   \<and> total (gained 3 7) life boot = 1
   \<and> total (released 1 7) life boot = 0
   \<and> total (given 1 7) life boot = 1
   \<and> total (gained 1 7) life boot = 1
   \<and> total (released 2 7) life boot = 0
   \<and> total (given 2 7) life boot = 1
   \<and> total (gained 2 7) life boot = 1
   \<and> calls (run readopt boot) = [Release 7]
   \<and> total (released 1 7) readopt boot = 1
   \<and> total (given 1 7) readopt boot = 0
   \<and> holds 1 7 (run readopt boot) = 0
   \<and> total (gained 1 7) readopt boot = 1"
  using no_double_release [of "Destroy 3" boot 7 3 life]
    no_double_release [of "Destroy 1" boot 7 1 readopt]
  by (simp add: life_def readopt_def released_def given_def gained_def holds_def issued_simps
      mem_step_simps calls_step Owning_def boot_def del: step.simps)

section \<open>The deferred closure runs once\<close>

text \<open>
  Claim C9. Constructing a deferred closure on the callable at reference \<open>r\<close> changes
  nothing in the scope: no callable is invoked. Destroying it invokes the callable at
  \<open>r\<close> exactly once (the log grows by the single entry \<open>r\<close>), and if that callable
  is \<open>f\<close>, the environment afterwards is \<open>f\<close> applied once to the environment
  before.
\<close>

theorem deferred_runs_once:
  "snd (SFBDeferredClosure_ctor r w) = w
   \<and> invoked (snd (SFBDeferredClosure_ctor r w)) = invoked w
   \<and> invoked (SFBDeferredClosure_dtor (fst (SFBDeferredClosure_ctor r w)) w') = invoked w' @ [r]
   \<and> count_list (invoked (SFBDeferredClosure_dtor (fst (SFBDeferredClosure_ctor r w)) w')) r
        = count_list (invoked w') r + 1
   \<and> (closures w' r = f \<longrightarrow>
        env (SFBDeferredClosure_dtor (fst (SFBDeferredClosure_ctor r w)) w') = f (env w'))
   \<and> closures (SFBDeferredClosure_dtor (fst (SFBDeferredClosure_ctor r w)) w') = closures w'"
  by (simp add: SFBDeferredClosure_ctor_def SFBDeferredClosure_dtor_def call_closure_def)

theorem deferred_runs_once_witness:
  "closures flag_scope 1 = (\<lambda>_. True)
   \<and> invoked (snd (SFBDeferredClosure_ctor 1 flag_scope)) = []
   \<and> env (snd (SFBDeferredClosure_ctor 1 flag_scope)) = False
   \<and> invoked (SFBDeferredClosure_dtor (fst (SFBDeferredClosure_ctor 1 flag_scope))
        (snd (SFBDeferredClosure_ctor 1 flag_scope))) = [1]
   \<and> env (SFBDeferredClosure_dtor (fst (SFBDeferredClosure_ctor 1 flag_scope))
        (snd (SFBDeferredClosure_ctor 1 flag_scope))) = True"
proof -
  have c: "closures flag_scope 1 = (\<lambda>_. True)" "invoked flag_scope = []" "env flag_scope = False"
    by (simp_all add: flag_scope_def)
  from deferred_runs_once [of 1 flag_scope flag_scope "\<lambda>_. True"] c
  show ?thesis by simp
qed

end
